theory Spec2Isabelle
  imports Main
begin

section \<open>Exceptions and the log\<close>

text \<open>
  The exceptions db01_setup.py can meet. All of them are subclasses of Python's
  \<^verbatim>\<open>Exception\<close>, so \<^verbatim>\<open>except Exception\<close> catches each of them. Each carries the text that
  \<^verbatim>\<open>str(e)\<close> returns.
\<close>

datatype exn =
    FileNotFoundError string
  | PermissionError string
  | FileExistsError string
  | UnicodeDecodeError string
  | OperationalError string
  | IntegrityError string
  | UnboundLocalError string

fun exn_str :: "exn \<Rightarrow> string" where
  "exn_str (FileNotFoundError m) = m"
| "exn_str (PermissionError m) = m"
| "exn_str (FileExistsError m) = m"
| "exn_str (UnicodeDecodeError m) = m"
| "exn_str (OperationalError m) = m"
| "exn_str (IntegrityError m) = m"
| "exn_str (UnboundLocalError m) = m"

datatype level = INFO | ERROR

section \<open>The connection, the engine and the world\<close>

text \<open>
  The method calls a run makes on the \<^verbatim>\<open>sqlite3.Connection\<close> object. \<^verbatim>\<open>Commit\<close> and
  \<^verbatim>\<open>Rollback\<close> are the calls that leaving a \<^verbatim>\<open>with connection:\<close> block makes
  (\<^verbatim>\<open>Connection.__exit__\<close>): commit when the block ended normally, rollback when it raised.
\<close>

datatype 's conn_op = Executescript 's | Commit | Rollback | Close

text \<open>
  The storage engine behind the connection, over any type \<open>'s\<close> of scripts and any type
  \<open>'d\<close> of database contents. \<open>executescript\<close> returns the exception it raised, if any,
  and the contents it leaves behind (a batch that fails midway keeps what the engine had
  already applied). \<open>commit\<close> and \<open>rollback\<close> on an open connection are taken not to raise.
\<close>

record ('s, 'd) engine =
  executescript :: "'s \<Rightarrow> 'd \<Rightarrow> exn option \<times> 'd"
  commit :: "'d \<Rightarrow> 'd"
  rollback :: "'d \<Rightarrow> 'd"

text \<open>
  The data folder as \<^verbatim>\<open>DATA_FOLDER.mkdir(exist_ok=True)\<close> sees it: absent, present as
  something that is not a directory, or a directory with its permission bits and the
  names of its entries.
\<close>

datatype node = Absent | NotDir | Dir (perms: nat) (entries: "string list")

text \<open>
  What a run reads from its surroundings: the directory of the script
  (\<^verbatim>\<open>pathlib.Path(__file__).parent.resolve()\<close>), what \<^verbatim>\<open>open(file_path, 'r')\<close> followed by
  \<^verbatim>\<open>file.read()\<close> gives for each path (the whole contents, or the exception raised),
  whether \<^verbatim>\<open>sqlite3.connect\<close> raises, the permission bits a new directory gets, and the
  engine.
\<close>

record ('s, 'd) env =
  root_dir :: string
  read_file :: "string \<Rightarrow> exn + 's"
  connect_error :: "exn option"
  new_dir_mode :: nat
  engine :: "('s, 'd) engine"

text \<open>
  What a run changes: the data folder, the contents of the database, the calls made on
  the connection and the lines written to the logger.

  Modelled from the spec: \<^verbatim>\<open>utils_logger.logger\<close> is imported from a module that is not
  among the sources; \<^verbatim>\<open>logger.info\<close> and \<^verbatim>\<open>logger.error\<close> are taken to append one line
  with its level and to return.
\<close>

record ('s, 'd) world =
  data_folder :: node
  db :: 'd
  conn_ops :: "'s conn_op list"
  logged :: "(level \<times> string) list"

definition logger_info :: "string \<Rightarrow> ('s, 'd) world \<Rightarrow> ('s, 'd) world" where
  "logger_info msg w = w\<lparr>logged := logged w @ [(INFO, msg)]\<rparr>"

definition logger_error :: "string \<Rightarrow> ('s, 'd) world \<Rightarrow> ('s, 'd) world" where
  "logger_error msg w = w\<lparr>logged := logged w @ [(ERROR, msg)]\<rparr>"

definition call :: "'s conn_op \<Rightarrow> ('s, 'd) world \<Rightarrow> ('s, 'd) world" where
  "call c w = w\<lparr>conn_ops := conn_ops w @ [c]\<rparr>"

section \<open>execute_sql_file\<close>

text \<open>
  \<^verbatim>\<open>
  def execute_sql_file(connection, file_path) -> None:
      try:
          with open(file_path, 'r') as file:
              sql_script: str = file.read()
          with connection:
              connection.executescript(sql_script)
              logger.info(f"Executed: {file_path}")
      except Exception as e:
          logger.error(f"Failed to execute {file_path}: {e}")
          raise
  \<close>
  The result is \<open>None\<close> when the function returns and \<open>Some e\<close> when it raises \<open>e\<close>.
\<close>

definition execute_sql_file ::
  "('s, 'd) engine \<Rightarrow> (string \<Rightarrow> exn + 's) \<Rightarrow> string \<Rightarrow> ('s, 'd) world
     \<Rightarrow> exn option \<times> ('s, 'd) world" where
  "execute_sql_file connection rd file_path w =
     (case rd file_path of
        Inl e \<Rightarrow>
          (Some e, logger_error (''Failed to execute '' @ file_path @ '': '' @ exn_str e) w)
      | Inr sql_script \<Rightarrow>
          (case executescript connection sql_script (db w) of
             (Some e, d) \<Rightarrow>
               (Some e,
                logger_error (''Failed to execute '' @ file_path @ '': '' @ exn_str e)
                  (call Rollback (call (Executescript sql_script) w)
                     \<lparr>db := rollback connection d\<rparr>))
           | (None, d) \<Rightarrow>
               (None,
                call Commit
                  (logger_info (''Executed: '' @ file_path)
                     (call (Executescript sql_script) w))
                  \<lparr>db := commit connection d\<rparr>)))"

section \<open>main\<close>

text \<open>\<^verbatim>\<open>pathlib.Path.joinpath\<close> with one relative name, on a POSIX path.\<close>

definition joinpath :: "string \<Rightarrow> string \<Rightarrow> string" where
  "joinpath p name = (if p = ''/'' then p @ name else p @ ''/'' @ name)"

text \<open>
  \<^verbatim>\<open>DATA_FOLDER.mkdir(exist_ok=True)\<close>: creates the directory when nothing is there, leaves
  an existing directory alone, and raises \<^verbatim>\<open>FileExistsError\<close> when the path exists and
  is not a directory. The parent is the directory of the running script, so it exists.
\<close>

definition mkdir :: "string \<Rightarrow> nat \<Rightarrow> ('s, 'd) world \<Rightarrow> exn + ('s, 'd) world" where
  "mkdir path mode w =
     (case data_folder w of
        Absent \<Rightarrow> Inr (w\<lparr>data_folder := Dir mode []\<rparr>)
      | Dir p es \<Rightarrow> Inr w
      | NotDir \<Rightarrow> Inl (FileExistsError (''[Errno 17] File exists: '' @ path)))"

text \<open>
  \<^verbatim>\<open>sqlite3.connect(DB_PATH)\<close>: raises, or opens the database file, creating it in the
  data folder when it is not there yet.
\<close>

definition add_entry :: "string \<Rightarrow> node \<Rightarrow> node" where
  "add_entry name n =
     (case n of
        Dir p es \<Rightarrow> Dir p (if name \<in> set es then es else es @ [name])
      | Absent \<Rightarrow> Absent
      | NotDir \<Rightarrow> NotDir)"

definition connect :: "exn option \<Rightarrow> ('s, 'd) world \<Rightarrow> exn + ('s, 'd) world" where
  "connect err w =
     (case err of
        Some e \<Rightarrow> Inl e
      | None \<Rightarrow> Inr (w\<lparr>data_folder := add_entry ''db.sqlite'' (data_folder w)\<rparr>))"

text \<open>
  \<^verbatim>\<open>
  def main() -> None:
      logger.info("Starting database setup...")
      ROOT_DIR = pathlib.Path(__file__).parent.resolve()
      SQL_CREATE_FOLDER = ROOT_DIR.joinpath("sql_create")
      DATA_FOLDER = ROOT_DIR.joinpath("data")
      DB_PATH = DATA_FOLDER.joinpath('db.sqlite')
      DATA_FOLDER.mkdir(exist_ok=True)
      try:
          connection = sqlite3.connect(DB_PATH)
          logger.info(f"Connected to database: {DB_PATH}")
          execute_sql_file(connection, SQL_CREATE_FOLDER.joinpath('01_drop_tables.sql'))
          execute_sql_file(connection, SQL_CREATE_FOLDER.joinpath('02_create_tables.sql'))
          execute_sql_file(connection, SQL_CREATE_FOLDER.joinpath('03_insert_records.sql'))
          logger.info("Database setup completed successfully.")
      except Exception as e:
          logger.error(f"Error during database setup: {e}")
      finally:
          connection.close()
          logger.info("Database connection closed.")
  \<close>
  When \<^verbatim>\<open>sqlite3.connect\<close> raises, the name \<^verbatim>\<open>connection\<close> was never bound: the handler
  logs the error, and \<^verbatim>\<open>connection.close()\<close> in the \<^verbatim>\<open>finally\<close> block raises
  \<^verbatim>\<open>UnboundLocalError\<close>, which leaves \<^verbatim>\<open>main\<close>.
\<close>

definition try_body ::
  "('s, 'd) env \<Rightarrow> string \<Rightarrow> ('s, 'd) world \<Rightarrow> exn option \<times> ('s, 'd) world" where
  "try_body ev SQL_CREATE_FOLDER w =
     (case execute_sql_file (engine ev) (read_file ev)
             (joinpath SQL_CREATE_FOLDER ''01_drop_tables.sql'') w of
        (Some e, w1) \<Rightarrow> (Some e, w1)
      | (None, w1) \<Rightarrow>
     (case execute_sql_file (engine ev) (read_file ev)
             (joinpath SQL_CREATE_FOLDER ''02_create_tables.sql'') w1 of
        (Some e, w2) \<Rightarrow> (Some e, w2)
      | (None, w2) \<Rightarrow>
     (case execute_sql_file (engine ev) (read_file ev)
             (joinpath SQL_CREATE_FOLDER ''03_insert_records.sql'') w2 of
        (Some e, w3) \<Rightarrow> (Some e, w3)
      | (None, w3) \<Rightarrow>
          (None, logger_info ''Database setup completed successfully.'' w3))))"

definition unbound_connection :: exn where
  "unbound_connection =
     UnboundLocalError
       ''cannot access local variable 'connection' where it is not associated with a value''"

definition main :: "('s, 'd) env \<Rightarrow> ('s, 'd) world \<Rightarrow> exn option \<times> ('s, 'd) world" where
  "main ev w =
     (let w0 = logger_info ''Starting database setup...'' w;
          ROOT_DIR = root_dir ev;
          SQL_CREATE_FOLDER = joinpath ROOT_DIR ''sql_create'';
          DATA_FOLDER = joinpath ROOT_DIR ''data'';
          DB_PATH = joinpath DATA_FOLDER ''db.sqlite''
      in case mkdir DATA_FOLDER (new_dir_mode ev) w0 of
           Inl e \<Rightarrow> (Some e, w0)
         | Inr w1 \<Rightarrow>
             (case connect (connect_error ev) w1 of
                Inl e \<Rightarrow>
                  (Some unbound_connection,
                   logger_error (''Error during database setup: '' @ exn_str e) w1)
              | Inr w2 \<Rightarrow>
                  (case try_body ev SQL_CREATE_FOLDER
                          (logger_info (''Connected to database: '' @ DB_PATH) w2) of
                     (Some e, w3) \<Rightarrow>
                       (None,
                        logger_info ''Database connection closed.''
                          (call Close
                             (logger_error (''Error during database setup: '' @ exn_str e) w3)))
                   | (None, w3) \<Rightarrow>
                       (None,
                        logger_info ''Database connection closed.'' (call Close w3)))))"

section \<open>The engine: the SQL the scripts use\<close>

text \<open>
  SQLite as far as the setup scripts use it: \<^verbatim>\<open>DROP TABLE IF EXISTS\<close>, \<^verbatim>\<open>CREATE TABLE\<close> with
  a primary key and foreign keys, and \<^verbatim>\<open>INSERT\<close> of one full row. A script is the list of
  its statements; text that SQLite's parser rejects is kept as \<open>Unparsable\<close>. Values are
  taken as stored (column affinity is not modelled).
\<close>

datatype val = Null | Txt string | Num int

datatype coltype = TEXT | INTEGER

datatype table_def =
  TableDef (columns: "(string \<times> coltype) list") (primary_key: "string option")
    (foreign_keys: "(string \<times> string \<times> string) list")

datatype table = Table (tdef: table_def) (rows: "val list list")

type_synonym database = "(string \<times> table) list"

datatype stmt =
    DropTableIfExists string
  | CreateTable string table_def
  | InsertInto string "val list"
  | Unparsable string

definition col_val :: "table_def \<Rightarrow> val list \<Rightarrow> string \<Rightarrow> val option" where
  "col_val d r c = map_of (zip (map fst (columns d)) r) c"

text \<open>
  A primary key is unique among the values that are not NULL (SQLite lets a TEXT primary
  key be NULL).
\<close>

definition pk_conflict :: "table \<Rightarrow> val list \<Rightarrow> bool" where
  "pk_conflict t r =
     (case primary_key (tdef t) of
        None \<Rightarrow> False
      | Some k \<Rightarrow>
          (case col_val (tdef t) r k of
             None \<Rightarrow> False
           | Some Null \<Rightarrow> False
           | Some v \<Rightarrow> list_ex (\<lambda>r'. col_val (tdef t) r' k = Some v) (rows t)))"

text \<open>
  The check of a new row against the foreign keys \<open>(column, parent table, parent column)\<close>
  of its table, made only when foreign-key enforcement is on: a NULL reference passes, any
  other value needs a parent row.
\<close>

fun fk_violation ::
  "database \<Rightarrow> table_def \<Rightarrow> val list \<Rightarrow> (string \<times> string \<times> string) list \<Rightarrow> exn option" where
  "fk_violation dbs d r [] = None"
| "fk_violation dbs d r ((c, pt, pc) # fks) =
     (case col_val d r c of
        None \<Rightarrow> fk_violation dbs d r fks
      | Some Null \<Rightarrow> fk_violation dbs d r fks
      | Some v \<Rightarrow>
          (case map_of dbs pt of
             None \<Rightarrow> Some (OperationalError (''no such table: main.'' @ pt))
           | Some p \<Rightarrow>
               if list_ex (\<lambda>r'. col_val (tdef p) r' pc = Some v) (rows p)
               then fk_violation dbs d r fks
               else Some (IntegrityError ''FOREIGN KEY constraint failed'')))"

text \<open>
  With enforcement on, dropping a table deletes its rows first, which fails when a row of
  another table refers to one of them.
\<close>

definition refers_to :: "string \<Rightarrow> table \<Rightarrow> table \<Rightarrow> bool" where
  "refers_to n t c =
     list_ex (\<lambda>(col, pt, pc).
        pt = n \<and>
        list_ex (\<lambda>r.
          case col_val (tdef c) r col of
            None \<Rightarrow> False
          | Some Null \<Rightarrow> False
          | Some v \<Rightarrow> list_ex (\<lambda>r'. col_val (tdef t) r' pc = Some v) (rows t)) (rows c))
       (foreign_keys (tdef c))"

definition referenced :: "database \<Rightarrow> string \<Rightarrow> table \<Rightarrow> bool" where
  "referenced dbs n t = list_ex (\<lambda>(m, c). m \<noteq> n \<and> refers_to n t c) dbs"

definition add_row :: "string \<Rightarrow> val list \<Rightarrow> database \<Rightarrow> database" where
  "add_row n r dbs =
     map (\<lambda>(m, t). if m = n then (m, Table (tdef t) (rows t @ [r])) else (m, t)) dbs"

fun exec_stmt :: "bool \<Rightarrow> database \<Rightarrow> stmt \<Rightarrow> exn + database" where
  "exec_stmt fk dbs (DropTableIfExists n) =
     (case map_of dbs n of
        None \<Rightarrow> Inr dbs
      | Some t \<Rightarrow>
          if fk \<and> referenced dbs n t
          then Inl (IntegrityError ''FOREIGN KEY constraint failed'')
          else Inr (filter (\<lambda>(m, c). m \<noteq> n) dbs))"
| "exec_stmt fk dbs (CreateTable n d) =
     (if n \<in> set (map fst dbs)
      then Inl (OperationalError (''table '' @ n @ '' already exists''))
      else Inr (dbs @ [(n, Table d [])]))"
| "exec_stmt fk dbs (InsertInto n r) =
     (case map_of dbs n of
        None \<Rightarrow> Inl (OperationalError (''no such table: '' @ n))
      | Some t \<Rightarrow>
          if length r \<noteq> length (columns (tdef t))
          then Inl (OperationalError (''wrong number of values for table '' @ n))
          else if pk_conflict t r
          then Inl (IntegrityError (''UNIQUE constraint failed: '' @ n))
          else (case (if fk then fk_violation dbs (tdef t) r (foreign_keys (tdef t)) else None) of
                  Some e \<Rightarrow> Inl e
                | None \<Rightarrow> Inr (add_row n r dbs)))"
| "exec_stmt fk dbs (Unparsable txt) = Inl (OperationalError (''syntax error: '' @ txt))"

text \<open>
  \<^verbatim>\<open>Connection.executescript\<close>: the statements run one after the other, each committed as
  it ends; the first one that fails stops the batch and the earlier ones stay applied.
\<close>

fun sqlite_executescript :: "bool \<Rightarrow> stmt list \<Rightarrow> database \<Rightarrow> exn option \<times> database" where
  "sqlite_executescript fk [] dbs = (None, dbs)"
| "sqlite_executescript fk (s # ss) dbs =
     (case exec_stmt fk dbs s of
        Inl e \<Rightarrow> (Some e, dbs)
      | Inr dbs' \<Rightarrow> sqlite_executescript fk ss dbs')"

text \<open>
  The engine of a connection whose foreign-key enforcement is \<open>fk\<close>. No script here opens a
  transaction, so \<^verbatim>\<open>commit\<close> and \<^verbatim>\<open>rollback\<close> find nothing pending.
\<close>

definition sqlite_engine :: "bool \<Rightarrow> (stmt list, database) engine" where
  "sqlite_engine fk =
     \<lparr>executescript = sqlite_executescript fk, commit = (\<lambda>d. d), rollback = (\<lambda>d. d)\<rparr>"

section \<open>The scripts\<close>

text \<open>
  \<^verbatim>\<open>
  DROP TABLE IF EXISTS books;
  DROP TABLE IF EXISTS authors;
  \<close>
\<close>

definition drop_tables_sql :: "stmt list" where
  "drop_tables_sql = [DropTableIfExists ''books'', DropTableIfExists ''authors'']"

text \<open>
  \<^verbatim>\<open>
  CREATE TABLE authors (
      author_id TEXT PRIMARY KEY,
      first_name TEXT,
      last_name TEXT,
      year_born INTEGER
  );
  CREATE TABLE books (
      book_id TEXT PRIMARY KEY,
      title TEXT,
      year_published INTEGER,
      author_id TEXT,
      FOREIGN KEY (author_id) REFERENCES authors(author_id)
  );
  \<close>
\<close>

definition authors_def :: table_def where
  "authors_def =
     TableDef
       [(''author_id'', TEXT), (''first_name'', TEXT), (''last_name'', TEXT),
        (''year_born'', INTEGER)]
       (Some ''author_id'') []"

definition books_def :: table_def where
  "books_def =
     TableDef
       [(''book_id'', TEXT), (''title'', TEXT), (''year_published'', INTEGER),
        (''author_id'', TEXT)]
       (Some ''book_id'') [(''author_id'', ''authors'', ''author_id'')]"

text \<open>
  Modelled from the spec: \<^verbatim>\<open>sql_create/02_create_tables.sql\<close> is not among the source files.
  Its two statements are the ones pasted into db01_setup.py after \<^verbatim>\<open>main\<close>; the stray
  \<^verbatim>\<open>try\<close> and the \<^verbatim>\<open>#\<close> comment lines pasted with them are left out, as the spec's schema
  (two tables, one foreign key) has it.
\<close>

definition create_tables_sql :: "stmt list" where
  "create_tables_sql = [CreateTable ''authors'' authors_def, CreateTable ''books'' books_def]"

text \<open>
  The same text as it is pasted into db01_setup.py: \<^verbatim>\<open>try\<close> stands before the first
  \<^verbatim>\<open>CREATE TABLE\<close> and \<^verbatim>\<open>#\<close> comment lines before the second. Neither is SQL, so each
  of the two statements is one the parser rejects.
\<close>

definition pasted_create_tables_sql :: "stmt list" where
  "pasted_create_tables_sql =
     [Unparsable ''try CREATE TABLE authors (...)'',
      Unparsable ''#Create the books table ... CREATE TABLE books (...)'']"



section \<open>Observing a run\<close>

text \<open>The paths \<^verbatim>\<open>main\<close> computes.\<close>

definition sql_path :: "('s, 'd) env \<Rightarrow> string \<Rightarrow> string" where
  "sql_path ev name = joinpath (joinpath (root_dir ev) ''sql_create'') name"

definition db_path :: "('s, 'd) env \<Rightarrow> string" where
  "db_path ev = joinpath (joinpath (root_dir ev) ''data'') ''db.sqlite''"

text \<open>The lines the two functions write to the logger.\<close>

definition started :: "level \<times> string" where
  "started = (INFO, ''Starting database setup...'')"

definition connected :: "('s, 'd) env \<Rightarrow> level \<times> string" where
  "connected ev = (INFO, ''Connected to database: '' @ db_path ev)"

definition executed :: "string \<Rightarrow> level \<times> string" where
  "executed file_path = (INFO, ''Executed: '' @ file_path)"

definition failed :: "string \<Rightarrow> exn \<Rightarrow> level \<times> string" where
  "failed file_path e = (ERROR, ''Failed to execute '' @ file_path @ '': '' @ exn_str e)"

definition setup_error :: "exn \<Rightarrow> level \<times> string" where
  "setup_error e = (ERROR, ''Error during database setup: '' @ exn_str e)"

definition completed :: "level \<times> string" where
  "completed = (INFO, ''Database setup completed successfully.'')"

definition closed :: "level \<times> string" where
  "closed = (INFO, ''Database connection closed.'')"



text \<open>The scripts submitted to the engine, in the order of submission.\<close>

fun submitted :: "'s conn_op list \<Rightarrow> 's list" where
  "submitted [] = []"
| "submitted (Executescript s # cs) = s # submitted cs"
| "submitted (Commit # cs) = submitted cs"
| "submitted (Rollback # cs) = submitted cs"
| "submitted (Close # cs) = submitted cs"


section \<open>A concrete configuration\<close>

text \<open>
  The scenario of the spec: one author, one book, the repository checked out at
  \<^verbatim>\<open>/repo\<close>, nothing in the data folder yet.
\<close>

definition example_seed :: "stmt list" where
  "example_seed =
     [InsertInto ''authors'' [Txt ''A1'', Txt ''Jane'', Txt ''Austen'', Num 1775],
      InsertInto ''books'' [Txt ''B1'', Txt ''Emma'', Num 1815, Txt ''A1'']]"

definition example_files :: "stmt list \<Rightarrow> string \<Rightarrow> exn + stmt list" where
  "example_files seed path =
     (if path = ''/repo/sql_create/01_drop_tables.sql'' then Inr drop_tables_sql
      else if path = ''/repo/sql_create/02_create_tables.sql'' then Inr create_tables_sql
      else if path = ''/repo/sql_create/03_insert_records.sql'' then Inr seed
      else Inl (FileNotFoundError (''[Errno 2] No such file or directory: '' @ path)))"

definition example_env :: "bool \<Rightarrow> stmt list \<Rightarrow> (stmt list, database) env" where
  "example_env fk seed =
     \<lparr>root_dir = ''/repo'', read_file = example_files seed, connect_error = None,
      new_dir_mode = 493, engine = sqlite_engine fk\<rparr>"

definition fresh_world :: "(stmt list, database) world" where
  "fresh_world = \<lparr>data_folder = Absent, db = [], conn_ops = [], logged = []\<rparr>"

section \<open>The calls of a run as lists\<close>

text \<open>The three script paths, in the order \<^verbatim>\<open>main\<close> passes them to the runner.\<close>

definition script_paths :: "('s, 'd) env \<Rightarrow> string list" where
  "script_paths ev =
     [sql_path ev ''01_drop_tables.sql'', sql_path ev ''02_create_tables.sql'',
      sql_path ev ''03_insert_records.sql'']"

text \<open>
  Successive calls of \<^verbatim>\<open>execute_sql_file\<close> on a list of paths, stopping at the first
  that raises: the shape of the three calls in the \<^verbatim>\<open>try\<close> block, used to reason about
  them.
\<close>

fun run_scripts ::
  "('s, 'd) engine \<Rightarrow> (string \<Rightarrow> exn + 's) \<Rightarrow> string list \<Rightarrow> ('s, 'd) world
     \<Rightarrow> exn option \<times> ('s, 'd) world" where
  "run_scripts c rd [] w = (None, w)"
| "run_scripts c rd (p # ps) w =
     (case execute_sql_file c rd p w of
        (Some e, w') \<Rightarrow> (Some e, w')
      | (None, w') \<Rightarrow> run_scripts c rd ps w')"


section \<open>The script runner\<close>

lemma submitted_append: "submitted (xs @ ys) = submitted xs @ submitted ys"
  by (induction xs rule: submitted.induct) simp_all

text \<open>
  The three ways a call of \<^verbatim>\<open>execute_sql_file\<close> can go: the file cannot be read, the
  engine rejects the batch, or the batch runs.
\<close>

lemma exec_unread:
  assumes "rd p = Inl e"
  shows "execute_sql_file c rd p w = (Some e, w\<lparr>logged := logged w @ [failed p e]\<rparr>)"
  using assms by (simp add: execute_sql_file_def logger_error_def failed_def)

lemma exec_rejected:
  assumes "rd p = Inr s" "executescript c s (db w) = (Some e, d)"
  shows "execute_sql_file c rd p w =
          (Some e, w\<lparr>db := rollback c d,
                      conn_ops := conn_ops w @ [Executescript s, Rollback],
                      logged := logged w @ [failed p e]\<rparr>)"
  using assms by (simp add: execute_sql_file_def logger_error_def call_def failed_def)

lemma exec_ran:
  assumes "rd p = Inr s" "executescript c s (db w) = (None, d)"
  shows "execute_sql_file c rd p w =
          (None, w\<lparr>db := commit c d,
                    conn_ops := conn_ops w @ [Executescript s, Commit],
                    logged := logged w @ [executed p]\<rparr>)"
  using assms by (simp add: execute_sql_file_def logger_info_def call_def executed_def)

lemma run_scripts_trace:
  "\<exists>k cs. k \<le> length ps \<and>
     logged (snd (run_scripts c rd ps w)) =
       logged w @ map executed (take k ps) @
         (case fst (run_scripts c rd ps w) of None \<Rightarrow> [] | Some e \<Rightarrow> [failed (ps ! k) e]) \<and>
     (fst (run_scripts c rd ps w) = None) = (k = length ps) \<and>
     conn_ops (snd (run_scripts c rd ps w)) = conn_ops w @ cs \<and>
     Close \<notin> set cs \<and>
     map Inr (submitted cs) = take (length (submitted cs)) (map rd ps) \<and>
     k \<le> length (submitted cs) \<and> length (submitted cs) \<le> Suc k \<and>
     data_folder (snd (run_scripts c rd ps w)) = data_folder w"
proof (induction ps arbitrary: w)
  case Nil
  show ?case by simp
next
  case (Cons p ps)
  show ?case
  proof (cases "rd p")
    case (Inl e)
    have run: "run_scripts c rd (p # ps) w = (Some e, w\<lparr>logged := logged w @ [failed p e]\<rparr>)"
      by (simp add: exec_unread [where rd = rd and p = p, OF Inl])
    show ?thesis
      unfolding run by (intro exI [of _ 0] exI [of _ "[]"]) simp
  next
    case (Inr s)
    obtain r d where rd: "executescript c s (db w) = (r, d)"
      by (cases "executescript c s (db w)")
    show ?thesis
    proof (cases r)
      case (Some e)
      have run: "run_scripts c rd (p # ps) w =
          (Some e, w\<lparr>db := rollback c d,
                      conn_ops := conn_ops w @ [Executescript s, Rollback],
                      logged := logged w @ [failed p e]\<rparr>)"
        using rd Some by (simp add: exec_rejected [where rd = rd and p = p, OF Inr])
      show ?thesis
        unfolding run using Inr
        by (intro exI [of _ 0] exI [of _ "[Executescript s, Rollback]"]) simp
    next
      case None
      define w' where "w' = w\<lparr>db := commit c d,
                    conn_ops := conn_ops w @ [Executescript s, Commit],
                    logged := logged w @ [executed p]\<rparr>"
      have run: "run_scripts c rd (p # ps) w = run_scripts c rd ps w'"
        using rd None by (simp add: exec_ran [where rd = rd and p = p, OF Inr] w'_def)
      from Cons.IH [of w'] obtain k cs where
        k: "k \<le> length ps"
        and lg: "logged (snd (run_scripts c rd ps w')) =
           logged w' @ map executed (take k ps) @
           (case fst (run_scripts c rd ps w') of None \<Rightarrow> [] | Some e \<Rightarrow> [failed (ps ! k) e])"
        and fin: "(fst (run_scripts c rd ps w') = None) = (k = length ps)"
        and ops: "conn_ops (snd (run_scripts c rd ps w')) = conn_ops w' @ cs"
        and cl: "Close \<notin> set cs"
        and sub: "map Inr (submitted cs) = take (length (submitted cs)) (map rd ps)"
        and lo: "k \<le> length (submitted cs)" and hi: "length (submitted cs) \<le> Suc k"
        and df: "data_folder (snd (run_scripts c rd ps w')) = data_folder w'"
        by (elim exE conjE)
      have w': "logged w' = logged w @ [executed p]"
        "conn_ops w' = conn_ops w @ [Executescript s, Commit]"
        "data_folder w' = data_folder w"
        by (simp_all add: w'_def)
      show ?thesis
        unfolding run
      proof (intro exI [of _ "Suc k"] exI [of _ "[Executescript s, Commit] @ cs"] conjI)
        show "Suc k \<le> length (p # ps)" using k by simp
        show "logged (snd (run_scripts c rd ps w')) =
           logged w @ map executed (take (Suc k) (p # ps)) @
           (case fst (run_scripts c rd ps w') of None \<Rightarrow> []
            | Some e \<Rightarrow> [failed ((p # ps) ! Suc k) e])"
          using lg w' by (simp split: option.splits)
        show "(fst (run_scripts c rd ps w') = None) = (Suc k = length (p # ps))"
          using fin by simp
        show "conn_ops (snd (run_scripts c rd ps w')) =
           conn_ops w @ [Executescript s, Commit] @ cs"
          using ops w' by simp
        show "Close \<notin> set ([Executescript s, Commit] @ cs)" using cl by simp
        show "map Inr (submitted ([Executescript s, Commit] @ cs)) =
           take (length (submitted ([Executescript s, Commit] @ cs))) (map rd (p # ps))"
          using sub Inr by simp
        show "Suc k \<le> length (submitted ([Executescript s, Commit] @ cs))"
          using lo by simp
        show "length (submitted ([Executescript s, Commit] @ cs)) \<le> Suc (Suc k)"
          using hi by simp
        show "data_folder (snd (run_scripts c rd ps w')) = data_folder w"
          using df w' by simp
      qed
    qed
  qed
qed


text \<open>
  Claim C9. When opening or reading the SQL file raises, \<^verbatim>\<open>execute_sql_file\<close> raises that
  exception with nothing submitted to the connection: the calls made on the connection
  and the contents of the database are what they were.
\<close>

theorem read_error_submits_nothing:
  "rd file_path = Inl e \<Longrightarrow>
     fst (execute_sql_file connection rd file_path w) = Some e \<and>
     db (snd (execute_sql_file connection rd file_path w)) = db w \<and>
     conn_ops (snd (execute_sql_file connection rd file_path w)) = conn_ops w"
  by (simp add: execute_sql_file_def logger_error_def)

theorem read_error_submits_nothing_witness:
  "example_files example_seed ''/repo/sql_create/04_views.sql'' =
     Inl (FileNotFoundError
            ''[Errno 2] No such file or directory: /repo/sql_create/04_views.sql'') \<and>
   fst (execute_sql_file (sqlite_engine False) (example_files example_seed)
          ''/repo/sql_create/04_views.sql'' fresh_world) =
     Some (FileNotFoundError
             ''[Errno 2] No such file or directory: /repo/sql_create/04_views.sql'') \<and>
   db (snd (execute_sql_file (sqlite_engine False) (example_files example_seed)
          ''/repo/sql_create/04_views.sql'' fresh_world)) = [] \<and>
   conn_ops (snd (execute_sql_file (sqlite_engine False) (example_files example_seed)
          ''/repo/sql_create/04_views.sql'' fresh_world)) = []"
proof -
  have h: "example_files example_seed ''/repo/sql_create/04_views.sql'' =
     Inl (FileNotFoundError
            ''[Errno 2] No such file or directory: /repo/sql_create/04_views.sql'')"
    by (simp add: example_files_def)
  show ?thesis
    using h read_error_submits_nothing
            [where rd = "example_files example_seed" and connection = "sqlite_engine False"
               and w = fresh_world, OF h]
    by (simp add: fresh_world_def)
qed






section \<open>The orchestrator\<close>

lemma try_body_run_scripts:
  "try_body ev (joinpath (root_dir ev) ''sql_create'') w =
     (case run_scripts (engine ev) (read_file ev) (script_paths ev) w of
        (Some e, w') \<Rightarrow> (Some e, w')
      | (None, w') \<Rightarrow> (None, logger_info ''Database setup completed successfully.'' w'))"
  by (simp add: try_body_def script_paths_def sql_path_def split: prod.splits option.splits)

text \<open>
  A run whose data folder is usable and whose connection opens: \<^verbatim>\<open>main\<close> is the three
  runner calls from the world \<open>wc\<close> reached after connecting, then the handler or the
  success line, then the \<^verbatim>\<open>finally\<close> block.
\<close>

lemma main_connected:
  assumes folder: "data_folder w \<noteq> NotDir" and conn: "connect_error ev = None"
  shows "\<exists>wc. logged wc = logged w @ [started, connected ev] \<and>
     conn_ops wc = conn_ops w \<and> db wc = db w \<and>
     data_folder wc =
       add_entry ''db.sqlite''
         (case data_folder w of Absent \<Rightarrow> Dir (new_dir_mode ev) [] | NotDir \<Rightarrow> NotDir
          | Dir p es \<Rightarrow> Dir p es) \<and>
     main ev w =
       (case run_scripts (engine ev) (read_file ev) (script_paths ev) wc of
          (Some e, w3) \<Rightarrow>
            (None, logger_info ''Database connection closed.''
               (call Close (logger_error (''Error during database setup: '' @ exn_str e) w3)))
        | (None, w3) \<Rightarrow>
            (None, logger_info ''Database connection closed.''
               (call Close (logger_info ''Database setup completed successfully.'' w3))))"
proof -
  define w0 where "w0 = logger_info ''Starting database setup...'' w"
  define w1 where "w1 = (case data_folder w of
      Absent \<Rightarrow> w0\<lparr>data_folder := Dir (new_dir_mode ev) []\<rparr> | NotDir \<Rightarrow> w0 | Dir p es \<Rightarrow> w0)"
  define w2 where "w2 = w1\<lparr>data_folder := add_entry ''db.sqlite'' (data_folder w1)\<rparr>"
  define wc where "wc = logger_info (''Connected to database: '' @ db_path ev) w2"
  define r where "r = run_scripts (engine ev) (read_file ev) (script_paths ev) wc"
  have mk: "mkdir (joinpath (root_dir ev) ''data'') (new_dir_mode ev) w0 = Inr w1"
    using folder by (simp add: mkdir_def w1_def w0_def logger_info_def split: node.splits)
  have cn: "connect (connect_error ev) w1 = Inr w2"
    using conn by (simp add: connect_def w2_def)
  have main_eq: "main ev w =
     (case r of
        (Some e, w3) \<Rightarrow>
          (None, logger_info ''Database connection closed.''
             (call Close (logger_error (''Error during database setup: '' @ exn_str e) w3)))
      | (None, w3) \<Rightarrow>
          (None, logger_info ''Database connection closed.''
             (call Close (logger_info ''Database setup completed successfully.'' w3))))"
    unfolding main_def Let_def w0_def [symmetric]
  proof (simp only: mk cn sum.case try_body_run_scripts db_path_def [symmetric]
          wc_def [symmetric] r_def [symmetric])
    obtain x w3 where "r = (x, w3)" by (cases r)
    then show "(case case r of
           (None, w') \<Rightarrow> (None, logger_info ''Database setup completed successfully.'' w')
         | (Some e, w') \<Rightarrow> (Some e, w') of
           (None, w3) \<Rightarrow> (None, logger_info ''Database connection closed.'' (call Close w3))
         | (Some e, w3) \<Rightarrow>
             (None, logger_info ''Database connection closed.''
                (call Close (logger_error (''Error during database setup: '' @ exn_str e) w3)))) =
        (case r of
           (None, w3) \<Rightarrow>
             (None, logger_info ''Database connection closed.''
                (call Close (logger_info ''Database setup completed successfully.'' w3)))
         | (Some e, w3) \<Rightarrow>
             (None, logger_info ''Database connection closed.''
                (call Close (logger_error (''Error during database setup: '' @ exn_str e) w3))))"
      by (cases x) simp_all
  qed
  have wc: "logged wc = logged w @ [started, connected ev]" "conn_ops wc = conn_ops w"
    "db wc = db w"
    "data_folder wc = add_entry ''db.sqlite''
         (case data_folder w of Absent \<Rightarrow> Dir (new_dir_mode ev) [] | NotDir \<Rightarrow> NotDir
          | Dir p es \<Rightarrow> Dir p es)"
    by (simp_all add: wc_def w2_def w1_def w0_def logger_info_def started_def connected_def
         split: node.splits)
  show ?thesis
    using wc main_eq unfolding r_def by blast
qed

lemma main_trace:
  assumes folder: "data_folder w \<noteq> NotDir" and conn: "connect_error ev = None"
  shows "\<exists>k e cs. k \<le> 3 \<and>
     fst (main ev w) = None \<and>
     logged (snd (main ev w)) =
       logged w @ [started, connected ev] @ map executed (take k (script_paths ev)) @
       (if k = 3 then [completed] else [failed (script_paths ev ! k) e, setup_error e]) @
       [closed] \<and>
     conn_ops (snd (main ev w)) = conn_ops w @ cs @ [Close] \<and>
     Close \<notin> set cs \<and>
     map Inr (submitted cs) = take (length (submitted cs)) (map (read_file ev) (script_paths ev)) \<and>
     k \<le> length (submitted cs) \<and> length (submitted cs) \<le> Suc k \<and>
     data_folder (snd (main ev w)) =
       add_entry ''db.sqlite''
         (case data_folder w of Absent \<Rightarrow> Dir (new_dir_mode ev) [] | NotDir \<Rightarrow> NotDir
          | Dir p es \<Rightarrow> Dir p es)"
proof -
  from main_connected [OF assms] obtain wc where
    wc: "logged wc = logged w @ [started, connected ev]" "conn_ops wc = conn_ops w"
    "data_folder wc = add_entry ''db.sqlite''
         (case data_folder w of Absent \<Rightarrow> Dir (new_dir_mode ev) [] | NotDir \<Rightarrow> NotDir
          | Dir p es \<Rightarrow> Dir p es)"
    and main_eq: "main ev w =
       (case run_scripts (engine ev) (read_file ev) (script_paths ev) wc of
          (Some e, w3) \<Rightarrow>
            (None, logger_info ''Database connection closed.''
               (call Close (logger_error (''Error during database setup: '' @ exn_str e) w3)))
        | (None, w3) \<Rightarrow>
            (None, logger_info ''Database connection closed.''
               (call Close (logger_info ''Database setup completed successfully.'' w3))))"
    by (elim exE conjE)
  define r where "r = run_scripts (engine ev) (read_file ev) (script_paths ev) wc"
  from run_scripts_trace [of "script_paths ev" "engine ev" "read_file ev" wc]
  obtain k cs where
    k: "k \<le> length (script_paths ev)"
    and lg: "logged (snd r) =
       logged wc @ map executed (take k (script_paths ev)) @
         (case fst r of None \<Rightarrow> [] | Some e \<Rightarrow> [failed (script_paths ev ! k) e])"
    and fin: "(fst r = None) = (k = length (script_paths ev))"
    and ops: "conn_ops (snd r) = conn_ops wc @ cs"
    and cl: "Close \<notin> set cs"
    and sub: "map Inr (submitted cs) =
       take (length (submitted cs)) (map (read_file ev) (script_paths ev))"
    and lo: "k \<le> length (submitted cs)" and hi: "length (submitted cs) \<le> Suc k"
    and df: "data_folder (snd r) = data_folder wc"
    unfolding r_def by (elim exE conjE)
  have len: "length (script_paths ev) = 3"
    by (simp add: script_paths_def)
  obtain x w3 where r: "r = (x, w3)" by (cases r)
  note main_r = main_eq [folded r_def]
  show ?thesis
  proof (cases x)
    case None
    with r fin len have k3: "k = 3" by simp
    show ?thesis
      using None r k3 lg ops cl sub lo hi df wc
      by (intro exI [of _ 3] exI [of _ undefined] exI [of _ cs])
         (simp add: main_r logger_info_def call_def completed_def closed_def)
  next
    case (Some e)
    with r fin len k have k3: "k < 3" by simp
    show ?thesis
      using Some r k3 lg ops cl sub lo hi df wc
      by (intro exI [of _ k] exI [of _ e] exI [of _ cs])
         (simp add: main_r logger_info_def logger_error_def call_def setup_error_def closed_def)
  qed
qed

lemma main_connect_failed:
  assumes folder: "data_folder w \<noteq> NotDir" and conn: "connect_error ev = Some e"
  shows "fst (main ev w) = Some unbound_connection"
    and "logged (snd (main ev w)) = logged w @ [started, setup_error e]"
    and "conn_ops (snd (main ev w)) = conn_ops w"
    and "db (snd (main ev w)) = db w"
    and "data_folder (snd (main ev w)) =
       (case data_folder w of Absent \<Rightarrow> Dir (new_dir_mode ev) [] | NotDir \<Rightarrow> NotDir
        | Dir p es \<Rightarrow> Dir p es)"
  using folder conn
  by (simp_all add: main_def Let_def mkdir_def connect_def logger_info_def logger_error_def
        started_def setup_error_def split: node.splits)



text \<open>
  Claim C5 says the connection is closed exactly once on every run, also when opening it
  fails. When \<^verbatim>\<open>sqlite3.connect\<close> raises, \<^verbatim>\<open>connection\<close> is unbound in the \<^verbatim>\<open>finally\<close>
  block: no \<^verbatim>\<open>close\<close> is called, the closing line is not logged, and
  \<^verbatim>\<open>UnboundLocalError\<close> leaves \<^verbatim>\<open>main\<close>.
\<close>

theorem connect_failure_never_closes:
  "main (example_env False example_seed
           \<lparr>connect_error := Some (OperationalError ''unable to open database file'')\<rparr>)
        fresh_world =
     (Some unbound_connection,
      \<lparr>data_folder = Dir 493 [], db = [], conn_ops = [],
       logged = [started, setup_error (OperationalError ''unable to open database file'')]\<rparr>)"
  by (simp add: main_def Let_def mkdir_def connect_def logger_info_def logger_error_def
        started_def setup_error_def example_env_def fresh_world_def)



text \<open>
  Claim C8. A data folder that is absent exists as a directory after the run. On a data
  folder that is already a directory, \<^verbatim>\<open>mkdir\<close> returns without changing anything,
  \<^verbatim>\<open>main\<close> does not raise \<^verbatim>\<open>FileExistsError\<close>, and after the run the directory has the
  permissions it had and, the database file apart, the entries it had.
\<close>

theorem data_folder_created_or_kept:
  "(data_folder w = Absent \<longrightarrow>
      (\<exists>es. data_folder (snd (main ev w)) = Dir (new_dir_mode ev) es)) \<and>
   (data_folder w = Dir p es \<longrightarrow>
      mkdir (joinpath (root_dir ev) ''data'') (new_dir_mode ev) w = Inr w \<and>
      fst (main ev w) \<noteq>
        Some (FileExistsError
                (''[Errno 17] File exists: '' @ joinpath (root_dir ev) ''data'')) \<and>
      perms (data_folder (snd (main ev w))) = p \<and>
      filter (\<lambda>n. n \<noteq> ''db.sqlite'') (entries (data_folder (snd (main ev w)))) =
        filter (\<lambda>n. n \<noteq> ''db.sqlite'') es)"
proof (cases "connect_error ev")
  case None
  have "data_folder w \<noteq> NotDir \<Longrightarrow>
     fst (main ev w) = None \<and> data_folder (snd (main ev w)) =
       add_entry ''db.sqlite''
         (case data_folder w of Absent \<Rightarrow> Dir (new_dir_mode ev) [] | NotDir \<Rightarrow> NotDir
          | Dir p es \<Rightarrow> Dir p es)"
    using main_trace [OF _ None, of w] by blast
  then show ?thesis
    by (auto simp: add_entry_def mkdir_def)
next
  case (Some e)
  have "data_folder w \<noteq> NotDir \<Longrightarrow>
     fst (main ev w) = Some unbound_connection \<and> data_folder (snd (main ev w)) =
       (case data_folder w of Absent \<Rightarrow> Dir (new_dir_mode ev) [] | NotDir \<Rightarrow> NotDir
        | Dir p es \<Rightarrow> Dir p es)"
    using main_connect_failed [OF _ Some, of w] by blast
  then show ?thesis
    by (auto simp: mkdir_def unbound_connection_def)
qed

theorem data_folder_created_or_kept_witness:
  "data_folder fresh_world = Absent \<and>
   (\<exists>es. data_folder (snd (main (example_env False example_seed) fresh_world)) =
      Dir (new_dir_mode (example_env False example_seed)) es) \<and>
   data_folder (fresh_world\<lparr>data_folder := Dir 448 [''notes.txt'']\<rparr>) =
     Dir 448 [''notes.txt''] \<and>
   mkdir (joinpath (root_dir (example_env False example_seed)) ''data'')
     (new_dir_mode (example_env False example_seed))
     (fresh_world\<lparr>data_folder := Dir 448 [''notes.txt'']\<rparr>) =
     Inr (fresh_world\<lparr>data_folder := Dir 448 [''notes.txt'']\<rparr>) \<and>
   perms (data_folder (snd (main (example_env False example_seed)
     (fresh_world\<lparr>data_folder := Dir 448 [''notes.txt'']\<rparr>)))) = 448 \<and>
   filter (\<lambda>n. n \<noteq> ''db.sqlite'')
     (entries (data_folder (snd (main (example_env False example_seed)
        (fresh_world\<lparr>data_folder := Dir 448 [''notes.txt'']\<rparr>))))) = [''notes.txt'']"
proof -
  have absent: "data_folder fresh_world = Absent"
    by (simp add: fresh_world_def)
  have present: "data_folder (fresh_world\<lparr>data_folder := Dir 448 [''notes.txt'']\<rparr>) =
     Dir 448 [''notes.txt'']"
    by simp
  show ?thesis
    using absent present
      data_folder_created_or_kept [of fresh_world "example_env False example_seed"]
      data_folder_created_or_kept
        [of "fresh_world\<lparr>data_folder := Dir 448 [''notes.txt'']\<rparr>"
            "example_env False example_seed" 448 "[''notes.txt'']"]
    by simp
qed

section \<open>The engine on the setup scripts\<close>

















section \<open>A run on the setup scripts\<close>








text \<open>
  With the stray \<^verbatim>\<open>try\<close> left in, the create batch is rejected at its first statement
  and creates nothing.
\<close>

lemma pasted_create_tables_rejected:
  "sqlite_executescript fk pasted_create_tables_sql dbs =
     (Some (OperationalError ''syntax error: try CREATE TABLE authors (...)''), dbs)"
  by (simp add: pasted_create_tables_sql_def)

section \<open>The database a run produces\<close>









end
